theory Spec2Isabelle
  imports Main "HOL-Library.Sublist"
begin

section \<open>Values of the JavaScript runtime\<close>

text \<open>
  Everything that is thrown in the handler is an \<open>Error\<close> object: the handler's own
  \<open>new Error(...)\<close>, the \<open>TypeError\<close>s of the runtime, the \<open>SyntaxError\<close> of
  \<open>JSON.parse\<close> and the errors of the Azure libraries. The catch block of \<open>executeQuery\<close>
  reads only \<open>error.message\<close>, so an error is its message.
\<close>

datatype js_error = JsError (err_msg: string)

text \<open>
  A value produced by \<open>JSON.parse\<close>. A number is kept as its canonical rendering
  (\<open>Number.prototype.toString\<close>, with \<open>-0\<close> rendered \<open>0\<close>): the only thing the
  code asks of a number is whether it is zero. An object is the list of its own
  properties.
\<close>

datatype json =
    JNull
  | JBool bool
  | JNum string
  | JStr string
  | JArr "json list"
  | JObj "(string \<times> json) list"

text \<open>Truthiness of a string-or-undefined value: \<open>undefined\<close> and \<open>''\<close> are falsy.\<close>

definition truthy :: "string option \<Rightarrow> bool" where
  "truthy v = (case v of None \<Rightarrow> False | Some s \<Rightarrow> s \<noteq> [])"

text \<open>\<open>a || b\<close> on string-or-undefined values.\<close>

definition js_or :: "string option \<Rightarrow> string option \<Rightarrow> string option" where
  "js_or a b = (if truthy a then a else b)"

text \<open>\<open>a || d\<close> where \<open>d\<close> is a string literal.\<close>

definition or_default :: "string option \<Rightarrow> string \<Rightarrow> string" where
  "or_default a d = (case a of None \<Rightarrow> d | Some s \<Rightarrow> if s \<noteq> [] then s else d)"

text \<open>Truthiness of a parsed JSON value: arrays and objects are always truthy.\<close>

fun json_truthy :: "json \<Rightarrow> bool" where
  "json_truthy JNull = False"
| "json_truthy (JBool b) = b"
| "json_truthy (JNum t) = (t \<noteq> ''0'')"
| "json_truthy (JStr s) = (s \<noteq> [])"
| "json_truthy (JArr xs) = True"
| "json_truthy (JObj kvs) = True"

text \<open>Decimal rendering of a natural number, as a template literal renders a length.\<close>

definition digit_char :: "nat \<Rightarrow> char" where
  "digit_char d = char_of (48 + d)"

fun show_nat :: "nat \<Rightarrow> string" where
  "show_nat n = (if n < 10 then [digit_char n] else show_nat (n div 10) @ [digit_char (n mod 10)])"

declare show_nat.simps [simp del]

section \<open>The handler's state and its collaborators\<close>

text \<open>
  A client handle is an object; its identity is the number of constructor calls made
  before it was built, so two handles built by different calls are different values.
\<close>

record client =
  client_id :: nat
  client_url :: string

text \<open>
  The calls that leave the handler: \<open>credential.getToken(scope)\<close>,
  \<open>new KustoClient(withTokenCredential(url, credential))\<close> and
  \<open>client.execute(database, query, properties)\<close>. The trace lists them in order.
  The database of a query is a string or \<open>undefined\<close>, as the expression that
  computes it. Writes to the console are not recorded.
\<close>

datatype event =
    GetToken string
  | NewClient string
  | Execute client "string option" string

fun is_NewClient :: "event \<Rightarrow> bool" where
  "is_NewClient (NewClient url) = True"
| "is_NewClient ev = False"

text \<open>
  What the handler does not own: the process environment, the credential provider, the
  client library and two operations of the language (\<open>JSON.parse\<close>, and the string
  conversion of a template literal). Each library call answers from the calls made so
  far and its arguments; \<open>Some e\<close> or \<open>Inl e\<close> is an exception.
  \<open>execute\<close> returns the \<open>toString()\<close> of each primary result.
\<close>

record world =
  env :: "string \<rightharpoonup> string"
  getToken :: "event list \<Rightarrow> string \<Rightarrow> js_error option"
  newClient :: "event list \<Rightarrow> string \<Rightarrow> js_error option"
  execute :: "event list \<Rightarrow> client \<Rightarrow> string option \<Rightarrow> string \<Rightarrow> js_error + string list"
  JSON_parse :: "string \<Rightarrow> js_error + json"
  ToString :: "json \<Rightarrow> js_error + string"

record KustoQueryParams =
  query :: string
  database :: "string option"
  clusterUrl :: "string option"

record handler =
  currentClusterUrl :: "string option"
  kustoClient :: "client option"
  initialized :: bool

definition new_handler :: handler where
  "new_handler = \<lparr>currentClusterUrl = None, kustoClient = None, initialized = False\<rparr>"

definition initialize :: "handler \<Rightarrow> handler" where
  "initialize h = h\<lparr>initialized := True\<rparr>"

section \<open>Connection resolution\<close>

definition formatClusterUrl :: "string \<Rightarrow> string" where
  "formatClusterUrl cluster =
     (if prefix ''https://'' cluster then cluster
      else ''https://'' @ cluster @ ''.kusto.windows.net'')"

text \<open>
  The branch of \<open>getClient\<close> that builds a client. The two fields are assigned only
  after the token was obtained and the constructor returned.
\<close>

definition connect :: "world \<Rightarrow> string \<Rightarrow> handler \<Rightarrow> event list \<Rightarrow> (js_error + client) \<times> handler \<times> event list" where
  "connect w formattedUrl h tr =
     (let scope = formattedUrl @ ''/.default''; tr1 = tr @ [GetToken scope] in
      case getToken w tr scope of
        Some e \<Rightarrow> (Inl e, h, tr1)
      | None \<Rightarrow>
          (let tr2 = tr1 @ [NewClient formattedUrl] in
           case newClient w tr1 formattedUrl of
             Some e \<Rightarrow> (Inl e, h, tr2)
           | None \<Rightarrow>
               (let c = \<lparr>client_id = length (filter is_NewClient tr1), client_url = formattedUrl\<rparr> in
                (Inr c, h\<lparr>kustoClient := Some c, currentClusterUrl := Some formattedUrl\<rparr>, tr2))))"

definition getClient :: "world \<Rightarrow> string \<Rightarrow> handler \<Rightarrow> event list \<Rightarrow> (js_error + client) \<times> handler \<times> event list" where
  "getClient w cluster h tr =
     (let formattedUrl = formatClusterUrl cluster in
      case kustoClient h of
        None \<Rightarrow> connect w formattedUrl h tr
      | Some c \<Rightarrow>
          if currentClusterUrl h \<noteq> Some formattedUrl then connect w formattedUrl h tr
          else (Inr c, h, tr))"

section \<open>Response shaping\<close>

record input_echo =
  input_clusterUrl :: string
  input_database :: string
  input_query :: string

text \<open>
  The object built by \<open>prepareResponseObj\<close>. A field that the object literal does not
  have is \<open>None\<close>.
\<close>

record envelope =
  success :: bool
  input :: input_echo
  data :: "json option"
  message :: "string option"
  error :: "string option"

text \<open>
  The transport response. \<open>text\<close> is \<open>JSON.stringify(responseObj, null, 2)\<close>; the
  model keeps the object that is serialised. \<open>isError\<close> is absent on the success path.
\<close>

record content_block =
  block_type :: string
  block_text :: envelope

record response =
  content :: "content_block list"
  isError :: "bool option"

text \<open>
  \<open>rawData.data\<close>: reading a property of \<open>null\<close> throws; an object yields its own
  property or \<open>undefined\<close>; every other parsed value yields \<open>undefined\<close>.
\<close>

fun data_of :: "json \<Rightarrow> js_error + json option" where
  "data_of JNull = Inl (JsError ''Cannot read properties of null (reading 'data')'')"
| "data_of (JObj kvs) = Inr (map_of kvs ''data'')"
| "data_of v = Inr None"

text \<open>\<open>rawData.data || []\<close>\<close>

definition rows_or_empty :: "json option \<Rightarrow> json" where
  "rows_or_empty d = (case d of None \<Rightarrow> JArr [] | Some v \<Rightarrow> if json_truthy v then v else JArr [])"

text \<open>
  The text of \<open>${data.length}\<close> for a truthy \<open>data\<close>: the number of elements of an
  array, the number of characters of a string, the converted own property \<open>length\<close> of
  an object, and \<open>undefined\<close> otherwise.
\<close>

fun length_text :: "world \<Rightarrow> json \<Rightarrow> js_error + string" where
  "length_text w (JArr xs) = Inr (show_nat (length xs))"
| "length_text w (JStr s) = Inr (show_nat (length s))"
| "length_text w (JObj kvs) =
     (case map_of kvs ''length'' of None \<Rightarrow> Inr ''undefined'' | Some v \<Rightarrow> ToString w v)"
| "length_text w v = Inr ''undefined''"

definition prepareResponseObj ::
  "world \<Rightarrow> KustoQueryParams \<Rightarrow> bool \<Rightarrow> json option \<Rightarrow> string option \<Rightarrow> js_error + envelope" where
  "prepareResponseObj w params ok rows err =
     (let cluster = or_default (js_or (clusterUrl params) (env w ''KUSTO_DEFAULT_CLUSTER'')) [];
          db = or_default (js_or (database params) (env w ''KUSTO_DEFAULT_DATABASE'')) [];
          echo = \<lparr>input_clusterUrl = formatClusterUrl cluster, input_database = db,
                   input_query = query params\<rparr>;
          failure = \<lparr>success = ok, input = echo, data = None, message = None,
                      error = Some (or_default err ''Unknown error occurred while executing Kusto query'')\<rparr>
      in case rows of
           None \<Rightarrow> Inr failure
         | Some v \<Rightarrow>
             if ok \<and> json_truthy v then
               (case length_text w v of
                  Inl e \<Rightarrow> Inl e
                | Inr n \<Rightarrow>
                    Inr \<lparr>success = ok, input = echo, data = Some v,
                         message = Some (''Query executed successfully. Retrieved '' @ n @ '' rows.''),
                         error = None\<rparr>)
             else Inr failure)"

section \<open>Query execution\<close>

definition text_response :: "envelope \<Rightarrow> bool option \<Rightarrow> response" where
  "text_response obj flag = \<lparr>content = [\<lparr>block_type = ''text'', block_text = obj\<rparr>], isError = flag\<rparr>"

text \<open>
  The part of \<open>executeQuery\<close> after the client was resolved: run the query, take the
  first primary result, parse it, shape the response.
\<close>

definition run_query ::
  "world \<Rightarrow> KustoQueryParams \<Rightarrow> client \<Rightarrow> string option \<Rightarrow> event list \<Rightarrow> (js_error + response) \<times> event list" where
  "run_query w params c db tr =
     (let tr1 = tr @ [Execute c db (query params)] in
      case execute w tr c db (query params) of
        Inl e \<Rightarrow> (Inl e, tr1)
      | Inr [] \<Rightarrow> (Inl (JsError ''Cannot read properties of undefined (reading 'toString')''), tr1)
      | Inr (rawString # rest) \<Rightarrow>
          (case JSON_parse w rawString of
             Inl e \<Rightarrow> (Inl e, tr1)
           | Inr rawData \<Rightarrow>
               (case data_of rawData of
                  Inl e \<Rightarrow> (Inl e, tr1)
                | Inr d \<Rightarrow>
                    (case prepareResponseObj w params True (Some (rows_or_empty d)) None of
                       Inl e \<Rightarrow> (Inl e, tr1)
                     | Inr obj \<Rightarrow> (Inr (text_response obj None), tr1)))))"

text \<open>The body of the \<open>try\<close> block of \<open>executeQuery\<close>; \<open>Inl\<close> is what it throws.\<close>

definition executeQuery_try ::
  "world \<Rightarrow> KustoQueryParams \<Rightarrow> handler \<Rightarrow> event list \<Rightarrow> (js_error + response) \<times> handler \<times> event list" where
  "executeQuery_try w params h tr =
     (if \<not> initialized h then
        (Inl (JsError ''KustoHandler not initialized. Call initialize() first.''), h, tr)
      else if \<not> truthy (clusterUrl params) \<and> \<not> truthy (env w ''KUSTO_DEFAULT_CLUSTER'') then
        (Inl (JsError ''Cluster URL must be provided either in parameters or via KUSTO_DEFAULT_CLUSTER environment variable''), h, tr)
      else if \<not> truthy (database params) \<and> \<not> truthy (env w ''KUSTO_DEFAULT_DATABASE'') then
        (Inl (JsError ''Database must be provided either in parameters or via KUSTO_DEFAULT_DATABASE environment variable''), h, tr)
      else
        (let db = js_or (database params) (env w ''KUSTO_DEFAULT_DATABASE'') in
         case js_or (clusterUrl params) (env w ''KUSTO_DEFAULT_CLUSTER'') of
           None \<Rightarrow> (Inl (JsError ''Cannot read properties of undefined (reading 'startsWith')''), h, tr)
         | Some cluster \<Rightarrow>
             (case getClient w cluster h tr of
                (Inl e, h1, tr1) \<Rightarrow> (Inl e, h1, tr1)
              | (Inr c, h1, tr1) \<Rightarrow>
                  (case run_query w params c db tr1 of (r, tr2) \<Rightarrow> (r, h1, tr2)))))"

text \<open>
  \<open>executeQuery\<close> with its \<open>catch\<close> block. The result is a sum so that an exception
  leaving the catch block would be visible as \<open>Inl\<close>.
\<close>

definition executeQuery ::
  "world \<Rightarrow> KustoQueryParams \<Rightarrow> handler \<Rightarrow> event list \<Rightarrow> (js_error + response) \<times> handler \<times> event list" where
  "executeQuery w params h tr =
     (case executeQuery_try w params h tr of
        (Inr r, h1, tr1) \<Rightarrow> (Inr r, h1, tr1)
      | (Inl e, h1, tr1) \<Rightarrow>
          (case prepareResponseObj w params False None (Some (err_msg e)) of
             Inl e2 \<Rightarrow> (Inl e2, h1, tr1)
           | Inr obj \<Rightarrow> (Inr (text_response obj (Some True)), h1, tr1)))"

section \<open>The request router\<close>

text \<open>The error codes of the protocol SDK.\<close>

datatype ErrorCode =
    ConnectionClosed
  | RequestTimeout
  | ParseError
  | InvalidRequest
  | MethodNotFound
  | InvalidParams
  | InternalError

text \<open>What the router can throw: a protocol error, or any other error.\<close>

datatype thrown = McpError ErrorCode string | Thrown js_error

text \<open>
  The object literal \<open>params\<close> of \<open>handleToolCall\<close>. The arguments of a request are
  untyped, so each field is any JSON value or \<open>undefined\<close>.
\<close>

record call_params =
  arg_query :: "json option"
  arg_database :: "json option"
  arg_clusterUrl :: "json option"

definition truthy_arg :: "json option \<Rightarrow> bool" where
  "truthy_arg v = (case v of None \<Rightarrow> False | Some j \<Rightarrow> json_truthy j)"

text \<open>
  \<open>handleToolCall\<close>. The process environment and \<open>adxHandler.executeQuery\<close> are
  parameters; \<open>args\<close> is \<open>None\<close> when the request carries no arguments, and reading
  a property of it then throws.
\<close>

definition handleToolCall ::
  "(string \<rightharpoonup> string) \<Rightarrow> (call_params \<Rightarrow> thrown + 'r) \<Rightarrow> string \<Rightarrow> (string \<rightharpoonup> json) option \<Rightarrow> thrown + 'r" where
  "handleToolCall penv adx name args =
     (if name = ''execute_kusto_query'' then
        (case args of
           None \<Rightarrow> Inl (Thrown (JsError ''Cannot read properties of undefined (reading 'query')''))
         | Some a \<Rightarrow>
             (let params = \<lparr>arg_query = a ''query'', arg_database = a ''database'',
                            arg_clusterUrl = a ''clusterUrl''\<rparr> in
              if \<not> truthy_arg (arg_clusterUrl params) \<and> \<not> truthy (penv ''KUSTO_DEFAULT_CLUSTER'') then
                Inl (McpError InvalidParams ''Cluster URL must be provided either in parameters or via KUSTO_DEFAULT_CLUSTER environment variable'')
              else if \<not> truthy_arg (arg_database params) \<and> \<not> truthy (penv ''KUSTO_DEFAULT_DATABASE'') then
                Inl (McpError InvalidParams ''Database must be provided either in parameters or via KUSTO_DEFAULT_DATABASE environment variable'')
              else adx params))
      else Inl (McpError InvalidParams (''Unknown tool name: '' @ name)))"

datatype EventType = SERVER_STARTED | SERVER_CONNECTED | SERVER_ERROR | SERVER_SHUTDOWN | TOOL_INVOKED

text \<open>
  The properties passed to \<open>logger.event\<close> by the request handler. \<open>ev_args\<close> is the
  value that \<open>JSON.stringify(args)\<close> serialises. \<open>additionalDimensions\<close> is the empty
  object that the constructor assigns, so its spread adds nothing.
\<close>

record tool_event =
  ev_name :: string
  ev_duration :: int
  ev_status :: string
  ev_args :: "(string \<rightharpoonup> json) option"
  ev_serverName :: string
  ev_version :: string

record server =
  serverName :: string
  version :: string

text \<open>
  The handler registered for \<open>CallToolRequestSchema\<close>. \<open>startTime\<close> and \<open>endTime\<close>
  are the two readings of \<open>Date.now()\<close>. The calls of \<open>logger.event\<close> are appended to
  the log; \<open>logs\<close> tells whether such a call throws (\<open>Some e\<close>), in which case the
  exception leaves the \<open>finally\<close> block in place of the result.
\<close>

definition callTool ::
  "(string \<rightharpoonup> string) \<Rightarrow> server \<Rightarrow> (call_params \<Rightarrow> thrown + 'r) \<Rightarrow>
   (EventType \<Rightarrow> tool_event \<Rightarrow> js_error option) \<Rightarrow> int \<Rightarrow> int \<Rightarrow>
   string \<Rightarrow> (string \<rightharpoonup> json) option \<Rightarrow> (EventType \<times> tool_event) list \<Rightarrow>
   (thrown + 'r) \<times> (EventType \<times> tool_event) list" where
  "callTool penv srv adx logs startTime endTime name args log =
     (let result = handleToolCall penv adx name args;
          status = (case result of Inl e \<Rightarrow> ''failure'' | Inr r \<Rightarrow> ''success'');
          duration = endTime - startTime;
          props = \<lparr>ev_name = name, ev_duration = duration, ev_status = status, ev_args = args,
                   ev_serverName = serverName srv, ev_version = version srv\<rparr>
      in (case logs TOOL_INVOKED props of
            Some e \<Rightarrow> Inl (Thrown e)
          | None \<Rightarrow> result,
          log @ [(TOOL_INVOKED, props)]))"

section \<open>Calls in sequence and sample collaborators\<close>

text \<open>\<open>getClient\<close> called once for each input of a list, in order, on the same handler.\<close>

fun getClients :: "world \<Rightarrow> string list \<Rightarrow> handler \<Rightarrow> event list \<Rightarrow> (js_error + client) list \<times> handler \<times> event list" where
  "getClients w [] h tr = ([], h, tr)"
| "getClients w (cluster # rest) h tr =
     (case getClient w cluster h tr of
        (r, h1, tr1) \<Rightarrow> (case getClients w rest h1 tr1 of (rs, h2, tr2) \<Rightarrow> (r # rs, h2, tr2)))"

text \<open>
  Collaborators for the examples: \<open>JSON.parse\<close> at three payloads (any other
  payload is rejected), the string conversion of values that have no \<open>toString\<close> or
  \<open>valueOf\<close> property of their own, and a world given by its two environment
  defaults, the answer of the credential provider and the payload of every query.
\<close>

definition sample_parse :: "string \<Rightarrow> js_error + json" where
  \<open>sample_parse s =
     (if s = ''null'' then Inr JNull
      else if s = ''{}'' then Inr (JObj [])
      else if s = ''{"name":"PrimaryResult","data":[{"x":1}]}''
        then Inr (JObj [(''name'', JStr ''PrimaryResult''), (''data'', JArr [JObj [(''x'', JNum ''1'')]])])
      else Inl (JsError ''Unexpected token''))\<close>

fun join_commas :: "string list \<Rightarrow> string" where
  "join_commas [] = []"
| "join_commas [x] = x"
| "join_commas (x # y # ys) = x @ '','' @ join_commas (y # ys)"

fun sample_text :: "json \<Rightarrow> string" where
  "sample_text JNull = ''null''"
| "sample_text (JBool b) = (if b then ''true'' else ''false'')"
| "sample_text (JNum t) = t"
| "sample_text (JStr s) = s"
| "sample_text (JArr xs) = join_commas (map (\<lambda>x. if x = JNull then [] else sample_text x) xs)"
| "sample_text (JObj kvs) = ''[object Object]''"

definition sample_ToString :: "json \<Rightarrow> js_error + string" where
  "sample_ToString v = Inr (sample_text v)"

definition sample_world :: "string option \<Rightarrow> string option \<Rightarrow> js_error option \<Rightarrow> string \<Rightarrow> world" where
  "sample_world cluster db token payload =
     \<lparr>env = (\<lambda>k. if k = ''KUSTO_DEFAULT_CLUSTER'' then cluster
                 else if k = ''KUSTO_DEFAULT_DATABASE'' then db else None),
      getToken = (\<lambda>tr scope. token),
      newClient = (\<lambda>tr url. None),
      execute = (\<lambda>tr c d q. Inr [payload]),
      JSON_parse = sample_parse,
      ToString = sample_ToString\<rparr>"

definition cached_handler :: handler where
  "cached_handler =
     \<lparr>currentClusterUrl = Some ''https://foo.kusto.windows.net'',
      kustoClient = Some \<lparr>client_id = 0, client_url = ''https://foo.kusto.windows.net''\<rparr>,
      initialized = True\<rparr>"

section \<open>Connection cache\<close>

lemma getClient_hit:
  "kustoClient h = Some c \<Longrightarrow> currentClusterUrl h = Some (formatClusterUrl a) \<Longrightarrow>
   getClient w a h tr = (Inr c, h, tr)"
  by (simp add: getClient_def)

lemma getClient_miss:
  "kustoClient h = None \<or> currentClusterUrl h \<noteq> Some (formatClusterUrl a) \<Longrightarrow>
   getClient w a h tr = connect w (formatClusterUrl a) h tr"
  by (auto simp: getClient_def Let_def split: option.splits)

lemma connect_ok:
  "getToken w tr (u @ ''/.default'') = None \<Longrightarrow>
   newClient w (tr @ [GetToken (u @ ''/.default'')]) u = None \<Longrightarrow>
   connect w u h tr =
     (Inr \<lparr>client_id = length (filter is_NewClient tr), client_url = u\<rparr>,
      h\<lparr>kustoClient := Some \<lparr>client_id = length (filter is_NewClient tr), client_url = u\<rparr>,
        currentClusterUrl := Some u\<rparr>,
      tr @ [GetToken (u @ ''/.default''), NewClient u])"
  by (simp add: connect_def Let_def)

lemma formatClusterUrl_short_name:
  "\<not> prefix ''https://'' n \<Longrightarrow>
   formatClusterUrl (''https://'' @ n @ ''.kusto.windows.net'') = formatClusterUrl n"
  by (simp add: formatClusterUrl_def)

lemma getClients_hits:
  "kustoClient h = Some c \<Longrightarrow> currentClusterUrl h = Some u \<Longrightarrow>
   \<forall>x \<in> set cs. formatClusterUrl x = u \<Longrightarrow>
   getClients w cs h tr = (replicate (length cs) (Inr c), h, tr)"
  by (induction cs) (simp_all add: getClient_hit)

text \<open>
  C1 (as amended): inputs that \<open>formatClusterUrl\<close> maps to the same URL string are one
  identity. On a handler without a cached client, any number of calls with such inputs
  fetches a token once, constructs one client and returns that one handle every time.
  A short name and its full URL are such inputs when they are written in the same
  letter case; the comparison of URLs is exact, so inputs that differ in letter case
  are not.
\<close>

theorem getClients_same_url_once:
  assumes fresh: "kustoClient h = None"
    and same: "\<forall>x \<in> set (a # cs). formatClusterUrl x = u"
    and token: "getToken w tr (u @ ''/.default'') = None"
    and built: "newClient w (tr @ [GetToken (u @ ''/.default'')]) u = None"
  shows "\<exists>c h'. getClients w (a # cs) h tr =
           (replicate (Suc (length cs)) (Inr c), h', tr @ [GetToken (u @ ''/.default''), NewClient u])
         \<and> kustoClient h' = Some c \<and> currentClusterUrl h' = Some u \<and> client_url c = u
         \<and> (\<forall>n. \<not> prefix ''https://'' n \<longrightarrow>
                formatClusterUrl (''https://'' @ n @ ''.kusto.windows.net'') = formatClusterUrl n)"
proof -
  let ?c = "\<lparr>client_id = length (filter is_NewClient tr), client_url = u\<rparr>"
  let ?h = "h\<lparr>kustoClient := Some ?c, currentClusterUrl := Some u\<rparr>"
  let ?tr = "tr @ [GetToken (u @ ''/.default''), NewClient u]"
  have fa: "formatClusterUrl a = u" using same by simp
  have first: "getClient w a h tr = (Inr ?c, ?h, ?tr)"
    using fresh token built by (simp add: getClient_miss fa connect_ok)
  have rest: "getClients w cs ?h ?tr = (replicate (length cs) (Inr ?c), ?h, ?tr)"
    using same getClients_hits [of ?h ?c u cs w ?tr] by simp
  have calls: "getClients w (a # cs) h tr = (replicate (Suc (length cs)) (Inr ?c), ?h, ?tr)"
    by (simp add: first rest)
  have cache: "kustoClient ?h = Some ?c \<and> currentClusterUrl ?h = Some u \<and> client_url ?c = u"
    by simp
  have short: "\<forall>n. \<not> prefix ''https://'' n \<longrightarrow>
                formatClusterUrl (''https://'' @ n @ ''.kusto.windows.net'') = formatClusterUrl n"
    using formatClusterUrl_short_name by blast
  from calls cache short show ?thesis by blast
qed

theorem getClients_same_url_once_witness:
  "\<exists>c h'. getClients (sample_world None None None ''{}'')
       [''example'', ''https://example.kusto.windows.net'', ''example''] new_handler [] =
     (replicate 3 (Inr c), h',
      [GetToken ''https://example.kusto.windows.net/.default'',
       NewClient ''https://example.kusto.windows.net''])
     \<and> kustoClient h' = Some c \<and> currentClusterUrl h' = Some ''https://example.kusto.windows.net''
     \<and> client_url c = ''https://example.kusto.windows.net''"
  using getClients_same_url_once [of new_handler "''example''"
      "[''https://example.kusto.windows.net'', ''example'']" "''https://example.kusto.windows.net''"
      "sample_world None None None ''{}''" "[]"]
  by (auto simp: new_handler_def formatClusterUrl_def sample_world_def numeral_3_eq_3
        simp del: getClients.simps)

text \<open>
  C1 as stated fails: after a call with \<open>https://EXAMPLE.kusto.windows.net\<close>, a call
  with \<open>https://example.kusto.windows.net\<close> fetches a second token and constructs a
  second client, and the two handles differ.
\<close>

theorem getClients_case_counterexample:
  "getClients (sample_world None None None ''{}'')
     [''https://EXAMPLE.kusto.windows.net'', ''https://example.kusto.windows.net''] new_handler [] =
   ([Inr \<lparr>client_id = 0, client_url = ''https://EXAMPLE.kusto.windows.net''\<rparr>,
     Inr \<lparr>client_id = 1, client_url = ''https://example.kusto.windows.net''\<rparr>],
    \<lparr>currentClusterUrl = Some ''https://example.kusto.windows.net'',
     kustoClient = Some \<lparr>client_id = 1, client_url = ''https://example.kusto.windows.net''\<rparr>,
     initialized = False\<rparr>,
    [GetToken ''https://EXAMPLE.kusto.windows.net/.default'',
     NewClient ''https://EXAMPLE.kusto.windows.net'',
     GetToken ''https://example.kusto.windows.net/.default'',
     NewClient ''https://example.kusto.windows.net''])"
  by (simp add: getClient_def connect_def formatClusterUrl_def sample_world_def new_handler_def Let_def)

text \<open>
  C9: when the handler has no cached client for the requested identity and the token
  request or the client constructor throws, \<open>getClient\<close> throws that error and leaves
  \<open>currentClusterUrl\<close> and \<open>kustoClient\<close> as they were; a later call for the identity
  that was cached before returns the handle that was cached before, with no further
  call to the credential provider or the client library.
\<close>

theorem getClient_failure_keeps_cache:
  assumes miss: "kustoClient h = None \<or> currentClusterUrl h \<noteq> Some (formatClusterUrl b)"
    and fails: "getToken w tr (formatClusterUrl b @ ''/.default'') = Some e \<or>
                (getToken w tr (formatClusterUrl b @ ''/.default'') = None \<and>
                 newClient w (tr @ [GetToken (formatClusterUrl b @ ''/.default'')]) (formatClusterUrl b) = Some e)"
  shows "\<exists>tr'. getClient w b h tr = (Inl e, h, tr') \<and>
           (\<forall>a c. kustoClient h = Some c \<and> currentClusterUrl h = Some (formatClusterUrl a)
              \<longrightarrow> getClient w a h tr' = (Inr c, h, tr'))"
proof -
  have "\<exists>tr'. connect w (formatClusterUrl b) h tr = (Inl e, h, tr')"
    using fails by (auto simp: connect_def Let_def)
  then obtain tr' where "getClient w b h tr = (Inl e, h, tr')"
    using miss getClient_miss [of h b w tr] by auto
  then show ?thesis
    by (auto simp: getClient_hit)
qed

theorem getClient_failure_keeps_cache_witness:
  "getClient (sample_world None None (Some (JsError ''Please run az login'')) ''{}'') ''other''
      cached_handler [] =
     (Inl (JsError ''Please run az login''), cached_handler,
      [GetToken ''https://other.kusto.windows.net/.default''])
   \<and> getClient (sample_world None None (Some (JsError ''Please run az login'')) ''{}'') ''foo''
      cached_handler [GetToken ''https://other.kusto.windows.net/.default''] =
     (Inr \<lparr>client_id = 0, client_url = ''https://foo.kusto.windows.net''\<rparr>, cached_handler,
      [GetToken ''https://other.kusto.windows.net/.default''])"
proof -
  let ?w = "sample_world None None (Some (JsError ''Please run az login'')) ''{}''"
  have 1: "kustoClient cached_handler = None \<or>
           currentClusterUrl cached_handler \<noteq> Some (formatClusterUrl ''other'')"
    by (simp add: cached_handler_def formatClusterUrl_def)
  have 2: "getToken ?w [] (formatClusterUrl ''other'' @ ''/.default'') = Some (JsError ''Please run az login'') \<or>
      (getToken ?w [] (formatClusterUrl ''other'' @ ''/.default'') = None \<and>
       newClient ?w ([] @ [GetToken (formatClusterUrl ''other'' @ ''/.default'')]) (formatClusterUrl ''other'')
         = Some (JsError ''Please run az login''))"
    by (simp add: sample_world_def)
  from getClient_failure_keeps_cache [OF 1 2]
  obtain tr' where a: "getClient ?w ''other'' cached_handler [] = (Inl (JsError ''Please run az login''), cached_handler, tr')"
    and b: "\<forall>a c. kustoClient cached_handler = Some c \<and> currentClusterUrl cached_handler = Some (formatClusterUrl a)
              \<longrightarrow> getClient ?w a cached_handler tr' = (Inr c, cached_handler, tr')"
    by blast
  have t: "tr' = [GetToken ''https://other.kusto.windows.net/.default'']"
    using a by (simp add: getClient_def connect_def Let_def cached_handler_def formatClusterUrl_def sample_world_def)
  have "kustoClient cached_handler = Some \<lparr>client_id = 0, client_url = ''https://foo.kusto.windows.net''\<rparr>
        \<and> currentClusterUrl cached_handler = Some (formatClusterUrl ''foo'')"
    by (simp add: cached_handler_def formatClusterUrl_def)
  with b have "getClient ?w ''foo'' cached_handler tr' =
     (Inr \<lparr>client_id = 0, client_url = ''https://foo.kusto.windows.net''\<rparr>, cached_handler, tr')"
    by blast
  with a t show ?thesis by simp
qed

section \<open>Failures of executeQuery\<close>

lemma prepareResponseObj_failure:
  "prepareResponseObj w params False None err =
     Inr \<lparr>success = False,
          input = \<lparr>input_clusterUrl = formatClusterUrl (or_default (js_or (clusterUrl params) (env w ''KUSTO_DEFAULT_CLUSTER'')) []),
                   input_database = or_default (js_or (database params) (env w ''KUSTO_DEFAULT_DATABASE'')) [],
                   input_query = query params\<rparr>,
          data = None, message = None,
          error = Some (or_default err ''Unknown error occurred while executing Kusto query'')\<rparr>"
  by (simp add: prepareResponseObj_def)

lemma executeQuery_caught:
  "executeQuery_try w params h tr = (Inl e, h1, tr1) \<Longrightarrow>
   executeQuery w params h tr =
     (Inr (text_response
        \<lparr>success = False,
          input = \<lparr>input_clusterUrl = formatClusterUrl (or_default (js_or (clusterUrl params) (env w ''KUSTO_DEFAULT_CLUSTER'')) []),
                   input_database = or_default (js_or (database params) (env w ''KUSTO_DEFAULT_DATABASE'')) [],
                   input_query = query params\<rparr>,
          data = None, message = None,
          error = Some (or_default (Some (err_msg e)) ''Unknown error occurred while executing Kusto query'')\<rparr>
        (Some True)), h1, tr1)"
  by (simp add: executeQuery_def prepareResponseObj_failure)

lemma executeQuery_passed:
  "executeQuery_try w params h tr = (Inr r, h1, tr1) \<Longrightarrow> executeQuery w params h tr = (Inr r, h1, tr1)"
  by (simp add: executeQuery_def)

lemma run_query_execute_failure:
  "execute w tr c db (query params) = Inl e \<Longrightarrow>
   run_query w params c db tr = (Inl e, tr @ [Execute c db (query params)])"
  by (simp add: run_query_def Let_def)

lemma run_query_parse_failure:
  "execute w tr c db (query params) = Inr (raw # rest) \<Longrightarrow> JSON_parse w raw = Inl e \<Longrightarrow>
   run_query w params c db tr = (Inl e, tr @ [Execute c db (query params)])"
  by (simp add: run_query_def Let_def)

text \<open>
  C2: on a handler on which \<open>initialize\<close> was not called, \<open>executeQuery\<close> returns, for
  every parameter object, a response with \<open>isError\<close> set whose envelope has
  \<open>success\<close> false and an error text containing \<open>not initialized\<close>. It does not
  throw, and the handler and the trace of outgoing calls are unchanged: no token is
  requested, no client is constructed and no query is sent.
\<close>

theorem executeQuery_not_initialized:
  assumes "\<not> initialized h"
  shows "\<exists>r obj msg. executeQuery w params h tr = (Inr r, h, tr) \<and>
           content r = [\<lparr>block_type = ''text'', block_text = obj\<rparr>] \<and> isError r = Some True \<and>
           success obj = False \<and> data obj = None \<and> error obj = Some msg \<and>
           msg = ''KustoHandler not initialized. Call initialize() first.'' \<and>
           sublist ''not initialized'' msg"
proof -
  have t: "executeQuery_try w params h tr =
      (Inl (JsError ''KustoHandler not initialized. Call initialize() first.''), h, tr)"
    using assms by (simp add: executeQuery_try_def)
  have s: "sublist ''not initialized'' ''KustoHandler not initialized. Call initialize() first.''"
    by code_simp
  show ?thesis
    using s by (simp add: executeQuery_caught [OF t] text_response_def or_default_def)
qed

theorem executeQuery_not_initialized_witness:
  "\<not> initialized new_handler \<and>
   executeQuery (sample_world (Some ''default-cluster'') (Some ''default-db'') None ''{}'')
      \<lparr>query = ''test query'', database = None, clusterUrl = None\<rparr> new_handler [] =
     (Inr \<lparr>content = [\<lparr>block_type = ''text'', block_text =
             \<lparr>success = False,
              input = \<lparr>input_clusterUrl = ''https://default-cluster.kusto.windows.net'',
                       input_database = ''default-db'', input_query = ''test query''\<rparr>,
              data = None, message = None,
              error = Some ''KustoHandler not initialized. Call initialize() first.''\<rparr>\<rparr>],
           isError = Some True\<rparr>, new_handler, [])"
proof -
  have 1: "\<not> initialized new_handler" by (simp add: new_handler_def)
  show ?thesis
    using 1 executeQuery_not_initialized [OF 1, of "sample_world (Some ''default-cluster'') (Some ''default-db'') None ''{}''"
       "\<lparr>query = ''test query'', database = None, clusterUrl = None\<rparr>" "[]"]
    by (auto simp: executeQuery_def executeQuery_try_def new_handler_def prepareResponseObj_def
         sample_world_def text_response_def js_or_def truthy_def or_default_def formatClusterUrl_def)
qed



text \<open>
  C4 (as amended): on an initialised handler, when the cluster identity is empty or
  absent and the environment has no default for it, \<open>executeQuery\<close> returns a failure
  envelope whose error text states the cluster-URL requirement, and neither the handler
  nor the trace of outgoing calls changes. When the cluster identity resolves and the
  database name is empty or absent with no default in the environment, the failure
  envelope states the database requirement, again with no outgoing call.
\<close>

theorem executeQuery_missing_parameter:
  assumes "initialized h"
  shows "(\<not> truthy (clusterUrl params) \<and> \<not> truthy (env w ''KUSTO_DEFAULT_CLUSTER'') \<longrightarrow>
            (\<exists>r obj. executeQuery w params h tr = (Inr r, h, tr) \<and>
               content r = [\<lparr>block_type = ''text'', block_text = obj\<rparr>] \<and> isError r = Some True \<and>
               success obj = False \<and> data obj = None \<and>
               error obj = Some ''Cluster URL must be provided either in parameters or via KUSTO_DEFAULT_CLUSTER environment variable''))
       \<and> ((truthy (clusterUrl params) \<or> truthy (env w ''KUSTO_DEFAULT_CLUSTER'')) \<and>
            \<not> truthy (database params) \<and> \<not> truthy (env w ''KUSTO_DEFAULT_DATABASE'') \<longrightarrow>
            (\<exists>r obj. executeQuery w params h tr = (Inr r, h, tr) \<and>
               content r = [\<lparr>block_type = ''text'', block_text = obj\<rparr>] \<and> isError r = Some True \<and>
               success obj = False \<and> data obj = None \<and>
               error obj = Some ''Database must be provided either in parameters or via KUSTO_DEFAULT_DATABASE environment variable''))"
proof (intro conjI impI)
  assume a: "\<not> truthy (clusterUrl params) \<and> \<not> truthy (env w ''KUSTO_DEFAULT_CLUSTER'')"
  have t: "executeQuery_try w params h tr =
      (Inl (JsError ''Cluster URL must be provided either in parameters or via KUSTO_DEFAULT_CLUSTER environment variable''), h, tr)"
    using assms a by (simp add: executeQuery_try_def)
  show "\<exists>r obj. executeQuery w params h tr = (Inr r, h, tr) \<and>
               content r = [\<lparr>block_type = ''text'', block_text = obj\<rparr>] \<and> isError r = Some True \<and>
               success obj = False \<and> data obj = None \<and>
               error obj = Some ''Cluster URL must be provided either in parameters or via KUSTO_DEFAULT_CLUSTER environment variable''"
    by (simp add: executeQuery_caught [OF t] text_response_def or_default_def)
next
  assume a: "(truthy (clusterUrl params) \<or> truthy (env w ''KUSTO_DEFAULT_CLUSTER'')) \<and>
            \<not> truthy (database params) \<and> \<not> truthy (env w ''KUSTO_DEFAULT_DATABASE'')"
  have t: "executeQuery_try w params h tr =
      (Inl (JsError ''Database must be provided either in parameters or via KUSTO_DEFAULT_DATABASE environment variable''), h, tr)"
    using assms a by (auto simp: executeQuery_try_def)
  show "\<exists>r obj. executeQuery w params h tr = (Inr r, h, tr) \<and>
               content r = [\<lparr>block_type = ''text'', block_text = obj\<rparr>] \<and> isError r = Some True \<and>
               success obj = False \<and> data obj = None \<and>
               error obj = Some ''Database must be provided either in parameters or via KUSTO_DEFAULT_DATABASE environment variable''"
    by (simp add: executeQuery_caught [OF t] text_response_def or_default_def)
qed

theorem executeQuery_missing_parameter_witness:
  "initialized (initialize new_handler) \<and>
   executeQuery (sample_world None (Some ''bar'') None ''{}'')
      \<lparr>query = ''T'', database = None, clusterUrl = Some []\<rparr> (initialize new_handler) [] =
     (Inr \<lparr>content = [\<lparr>block_type = ''text'', block_text =
             \<lparr>success = False,
              input = \<lparr>input_clusterUrl = ''https://.kusto.windows.net'', input_database = ''bar'',
                       input_query = ''T''\<rparr>,
              data = None, message = None,
              error = Some ''Cluster URL must be provided either in parameters or via KUSTO_DEFAULT_CLUSTER environment variable''\<rparr>\<rparr>],
           isError = Some True\<rparr>, initialize new_handler, []) \<and>
   executeQuery (sample_world (Some ''foo'') None None ''{}'')
      \<lparr>query = ''T'', database = Some [], clusterUrl = None\<rparr> (initialize new_handler) [] =
     (Inr \<lparr>content = [\<lparr>block_type = ''text'', block_text =
             \<lparr>success = False,
              input = \<lparr>input_clusterUrl = ''https://foo.kusto.windows.net'', input_database = [],
                       input_query = ''T''\<rparr>,
              data = None, message = None,
              error = Some ''Database must be provided either in parameters or via KUSTO_DEFAULT_DATABASE environment variable''\<rparr>\<rparr>],
           isError = Some True\<rparr>, initialize new_handler, [])"
proof -
  have 1: "initialized (initialize new_handler)" by (simp add: initialize_def)
  have c: "\<not> truthy (clusterUrl \<lparr>query = ''T'', database = None, clusterUrl = Some []\<rparr>) \<and>
           \<not> truthy (env (sample_world None (Some ''bar'') None ''{}'') ''KUSTO_DEFAULT_CLUSTER'')"
    by (simp add: truthy_def sample_world_def)
  have d: "(truthy (clusterUrl \<lparr>query = ''T'', database = Some [], clusterUrl = None\<rparr>) \<or>
            truthy (env (sample_world (Some ''foo'') None None ''{}'') ''KUSTO_DEFAULT_CLUSTER'')) \<and>
           \<not> truthy (database \<lparr>query = ''T'', database = Some [], clusterUrl = None\<rparr>) \<and>
           \<not> truthy (env (sample_world (Some ''foo'') None None ''{}'') ''KUSTO_DEFAULT_DATABASE'')"
    by (simp add: truthy_def sample_world_def)
  from executeQuery_missing_parameter [OF 1, of "\<lparr>query = ''T'', database = None, clusterUrl = Some []\<rparr>"
        "sample_world None (Some ''bar'') None ''{}''" "[]"] c
  have "\<exists>r. executeQuery (sample_world None (Some ''bar'') None ''{}'')
      \<lparr>query = ''T'', database = None, clusterUrl = Some []\<rparr> (initialize new_handler) [] =
      (Inr r, initialize new_handler, [])"
    by blast
  then have A: "executeQuery (sample_world None (Some ''bar'') None ''{}'')
      \<lparr>query = ''T'', database = None, clusterUrl = Some []\<rparr> (initialize new_handler) [] =
     (Inr \<lparr>content = [\<lparr>block_type = ''text'', block_text =
             \<lparr>success = False,
              input = \<lparr>input_clusterUrl = ''https://.kusto.windows.net'', input_database = ''bar'',
                       input_query = ''T''\<rparr>,
              data = None, message = None,
              error = Some ''Cluster URL must be provided either in parameters or via KUSTO_DEFAULT_CLUSTER environment variable''\<rparr>\<rparr>],
           isError = Some True\<rparr>, initialize new_handler, [])"
    by (auto simp: executeQuery_def executeQuery_try_def initialize_def new_handler_def prepareResponseObj_def
         sample_world_def text_response_def js_or_def truthy_def or_default_def formatClusterUrl_def)
  from executeQuery_missing_parameter [OF 1, of "\<lparr>query = ''T'', database = Some [], clusterUrl = None\<rparr>"
        "sample_world (Some ''foo'') None None ''{}''" "[]"] d
  have "\<exists>r. executeQuery (sample_world (Some ''foo'') None None ''{}'')
      \<lparr>query = ''T'', database = Some [], clusterUrl = None\<rparr> (initialize new_handler) [] =
      (Inr r, initialize new_handler, [])"
    by blast
  then have B: "executeQuery (sample_world (Some ''foo'') None None ''{}'')
      \<lparr>query = ''T'', database = Some [], clusterUrl = None\<rparr> (initialize new_handler) [] =
     (Inr \<lparr>content = [\<lparr>block_type = ''text'', block_text =
             \<lparr>success = False,
              input = \<lparr>input_clusterUrl = ''https://foo.kusto.windows.net'', input_database = [],
                       input_query = ''T''\<rparr>,
              data = None, message = None,
              error = Some ''Database must be provided either in parameters or via KUSTO_DEFAULT_DATABASE environment variable''\<rparr>\<rparr>],
           isError = Some True\<rparr>, initialize new_handler, [])"
    by (auto simp: executeQuery_def executeQuery_try_def initialize_def new_handler_def prepareResponseObj_def
         sample_world_def text_response_def js_or_def truthy_def or_default_def formatClusterUrl_def)
  from 1 A B show ?thesis by blast
qed

text \<open>
  C4 as stated fails when both are missing: the cluster check comes first, so the
  error text states the cluster-URL requirement and does not mention the database.
  This is the input of the repository's test for missing parameters, where both
  environment variables are the empty string.
\<close>

theorem executeQuery_missing_both_counterexample:
  "executeQuery (sample_world (Some []) (Some []) None ''{}'')
      \<lparr>query = ''test query'', database = None, clusterUrl = None\<rparr> (initialize new_handler) [] =
     (Inr \<lparr>content = [\<lparr>block_type = ''text'', block_text =
             \<lparr>success = False,
              input = \<lparr>input_clusterUrl = ''https://.kusto.windows.net'', input_database = [],
                       input_query = ''test query''\<rparr>,
              data = None, message = None,
              error = Some ''Cluster URL must be provided either in parameters or via KUSTO_DEFAULT_CLUSTER environment variable''\<rparr>\<rparr>],
           isError = Some True\<rparr>, initialize new_handler, [])
   \<and> \<not> sublist ''Database''
        ''Cluster URL must be provided either in parameters or via KUSTO_DEFAULT_CLUSTER environment variable''"
proof -
  have "\<not> sublist ''Database''
        ''Cluster URL must be provided either in parameters or via KUSTO_DEFAULT_CLUSTER environment variable''"
    by code_simp
  then show ?thesis
    by (simp add: executeQuery_def executeQuery_try_def initialize_def new_handler_def prepareResponseObj_def
         sample_world_def text_response_def js_or_def truthy_def or_default_def formatClusterUrl_def)
qed

section \<open>Successful queries\<close>

lemma rows_or_empty_truthy: "json_truthy (rows_or_empty d)"
  by (simp add: rows_or_empty_def split: option.splits)

lemma prepareResponseObj_rows:
  "prepareResponseObj w params True (Some (JArr rows)) err =
     Inr \<lparr>success = True,
          input = \<lparr>input_clusterUrl = formatClusterUrl (or_default (js_or (clusterUrl params) (env w ''KUSTO_DEFAULT_CLUSTER'')) []),
                   input_database = or_default (js_or (database params) (env w ''KUSTO_DEFAULT_DATABASE'')) [],
                   input_query = query params\<rparr>,
          data = Some (JArr rows),
          message = Some (''Query executed successfully. Retrieved '' @ show_nat (length rows) @ '' rows.''),
          error = None\<rparr>"
  by (simp add: prepareResponseObj_def)

lemma prepareResponseObj_success_shape:
  assumes "prepareResponseObj w params True (Some v) err = Inr obj" and "json_truthy v"
  shows "success obj = True \<and> data obj = Some v \<and> error obj = None \<and>
         (\<exists>n. length_text w v = Inr n \<and>
              message obj = Some (''Query executed successfully. Retrieved '' @ n @ '' rows.''))"
  using assms by (auto simp: prepareResponseObj_def Let_def split: sum.splits)

lemma run_query_Inr:
  assumes "run_query w params c db tr = (Inr r, tr')"
  shows "\<exists>obj d. r = text_response obj None \<and>
           prepareResponseObj w params True (Some (rows_or_empty d)) None = Inr obj"
  using assms
  by (auto simp: run_query_def Let_def split: sum.splits list.splits)

lemma executeQuery_try_Inr:
  assumes "executeQuery_try w params h tr = (Inr r, h', tr')"
  shows "\<exists>c db tr1. run_query w params c db tr1 = (Inr r, tr')"
  using assms
  by (auto simp: executeQuery_try_def Let_def split: if_splits option.splits sum.splits prod.splits)

lemma executeQuery_success_from_try:
  assumes "executeQuery w params h tr = (Inr r, h', tr')" and "isError r = None"
  shows "executeQuery_try w params h tr = (Inr r, h', tr')"
proof (cases "executeQuery_try w params h tr")
  case (fields res h1 tr1)
  show ?thesis
  proof (cases res)
    case (Inl e)
    with fields have t: "executeQuery_try w params h tr = (Inl e, h1, tr1)" by simp
    from assms show ?thesis
      by (auto simp: executeQuery_caught [OF t] text_response_def)
  next
    case (Inr r0)
    with fields have t: "executeQuery_try w params h tr = (Inr r0, h1, tr1)" by simp
    from assms show ?thesis
      by (simp add: executeQuery_passed [OF t] t)
  qed
qed

lemma validated_cluster:
  "js_or a b = Some cluster \<Longrightarrow> cluster \<noteq> [] \<Longrightarrow> truthy a \<or> truthy b"
  by (auto simp: js_or_def truthy_def split: if_splits)

lemma validated_database: "truthy (js_or a b) \<Longrightarrow> truthy a \<or> truthy b"
  by (auto simp: js_or_def split: if_splits)

lemma executeQuery_try_run:
  assumes "initialized h"
    and "js_or (clusterUrl params) (env w ''KUSTO_DEFAULT_CLUSTER'') = Some cluster" and "cluster \<noteq> []"
    and "truthy (js_or (database params) (env w ''KUSTO_DEFAULT_DATABASE''))"
    and "getClient w cluster h tr = (Inr c, h1, tr1)"
    and "run_query w params c (js_or (database params) (env w ''KUSTO_DEFAULT_DATABASE'')) tr1 = (r, tr2)"
  shows "executeQuery_try w params h tr = (r, h1, tr2)"
  using assms validated_cluster [OF assms(2,3)] validated_database [OF assms(4)]
  by (auto simp: executeQuery_try_def Let_def)

lemma run_query_rows:
  assumes "execute w tr c db (query params) = Inr (raw # rest)"
    and "JSON_parse w raw = Inr v" and "data_of v = Inr d" and "rows_or_empty d = JArr rows"
  shows "run_query w params c db tr =
     (Inr (text_response
        \<lparr>success = True,
          input = \<lparr>input_clusterUrl = formatClusterUrl (or_default (js_or (clusterUrl params) (env w ''KUSTO_DEFAULT_CLUSTER'')) []),
                   input_database = or_default (js_or (database params) (env w ''KUSTO_DEFAULT_DATABASE'')) [],
                   input_query = query params\<rparr>,
          data = Some (JArr rows),
          message = Some (''Query executed successfully. Retrieved '' @ show_nat (length rows) @ '' rows.''),
          error = None\<rparr> None),
      tr @ [Execute c db (query params)])"
  using assms by (simp add: run_query_def Let_def prepareResponseObj_rows)

lemma data_of_absent:
  "v \<noteq> JNull \<Longrightarrow> \<forall>kvs. v = JObj kvs \<longrightarrow> map_of kvs ''data'' = None \<Longrightarrow> data_of v = Inr None"
  by (cases v) simp_all

subsection \<open>Decimal rendering\<close>

lemma show_nat_nonempty: "show_nat n \<noteq> []"
  by (subst show_nat.simps) simp

lemma digit_char_code: "d < 10 \<Longrightarrow> (of_char (digit_char d) :: nat) = 48 + d"
proof -
  assume "d < 10"
  then have "(48 + d) mod 256 = 48 + d" by (intro mod_less) arith
  then show ?thesis
    by (simp only: digit_char_def of_char_of)
qed

lemma digit_char_inj: "a < 10 \<Longrightarrow> b < 10 \<Longrightarrow> digit_char a = digit_char b \<Longrightarrow> a = b"
proof -
  assume a: "a < 10" and b: "b < 10" and e: "digit_char a = digit_char b"
  have "48 + a = (of_char (digit_char a) :: nat)" using a by (simp only: digit_char_code)
  also have "\<dots> = of_char (digit_char b)" by (simp only: e)
  also have "\<dots> = 48 + b" using b by (simp only: digit_char_code)
  finally show "a = b" by arith
qed

lemma show_nat_inj: "show_nat m = show_nat n \<Longrightarrow> m = n"
proof (induction m arbitrary: n rule: show_nat.induct)
  case (1 m)
  show ?case
  proof (cases "m < 10")
    case small: True
    show ?thesis
    proof (cases "n < 10")
      case True
      with small "1.prems" show ?thesis
        by (simp add: show_nat.simps [of m] show_nat.simps [of n] digit_char_inj)
    next
      case False
      with small "1.prems" show_nat_nonempty [of "n div 10"] show ?thesis
        by (simp add: show_nat.simps [of m] show_nat.simps [of n])
    qed
  next
    case big: False
    show ?thesis
    proof (cases "n < 10")
      case True
      with big "1.prems" show_nat_nonempty [of "m div 10"] show ?thesis
        by (simp add: show_nat.simps [of m] show_nat.simps [of n])
    next
      case False
      with big "1.prems" have eq: "show_nat (m div 10) = show_nat (n div 10)"
        and d: "digit_char (m mod 10) = digit_char (n mod 10)"
        by (simp_all add: show_nat.simps [of m] show_nat.simps [of n])
      from "1.IH" [OF big eq] have "m div 10 = n div 10" .
      moreover from d have "m mod 10 = n mod 10"
        by (intro digit_char_inj) simp_all
      ultimately show ?thesis
        by (metis div_mult_mod_eq)
    qed
  qed
qed

lemma show_nat_0: "show_nat 0 = ''0''"
  by code_simp

lemma getClient_cache_consistent:
  assumes "\<forall>c0. kustoClient h = Some c0 \<longrightarrow> currentClusterUrl h = Some (client_url c0)"
    and "getClient w a h tr = (r, h1, tr1)"
  shows "\<forall>c0. kustoClient h1 = Some c0 \<longrightarrow> currentClusterUrl h1 = Some (client_url c0)"
  using assms
  by (auto simp: getClient_def connect_def Let_def split: option.splits if_splits)

subsection \<open>The scenario with environment defaults\<close>

text \<open>
  C5: on an initialised handler, with the environment defaults \<open>foo\<close> for the cluster
  and \<open>bar\<close> for the database, an input that holds only a query resolves the
  connection to \<open>https://foo.kusto.windows.net\<close>. When the handler already caches a
  client for that URL, the handler is unchanged and no token is requested and no client
  is constructed. Otherwise exactly one token is requested, for that URL, and exactly
  one client is constructed, for that URL, and the handler caches that client under
  that URL. In both cases the query is then sent once, on that client, to database
  \<open>bar\<close>, and, when the token, the client, the query and the parse succeed, the
  response has no \<open>isError\<close> and its envelope has \<open>success\<close> true and the rows of
  the payload's \<open>data\<close> field. The client that runs the query is a client for that
  URL whenever the handler's cached client, if any, is one for its cached URL, which
  \<open>getClient\<close> maintains.
\<close>

theorem executeQuery_environment_defaults:
  assumes init: "initialized h"
    and envc: "env w ''KUSTO_DEFAULT_CLUSTER'' = Some ''foo''"
    and envd: "env w ''KUSTO_DEFAULT_DATABASE'' = Some ''bar''"
    and only_query: "clusterUrl params = None" "database params = None"
    and token: "\<forall>t. getToken w t ''https://foo.kusto.windows.net/.default'' = None"
    and built: "\<forall>t. newClient w t ''https://foo.kusto.windows.net'' = None"
    and runs: "\<forall>t c. execute w t c (Some ''bar'') (query params) = Inr (raw # rest)"
    and parses: "JSON_parse w raw = Inr (JObj kvs)"
    and rows: "map_of kvs ''data'' = Some (JArr rows)"
  shows "\<exists>c h1 tr1. executeQuery w params h tr =
           (Inr \<lparr>content = [\<lparr>block_type = ''text'', block_text =
                   \<lparr>success = True,
                    input = \<lparr>input_clusterUrl = ''https://foo.kusto.windows.net'',
                             input_database = ''bar'', input_query = query params\<rparr>,
                    data = Some (JArr rows),
                    message = Some (''Query executed successfully. Retrieved '' @ show_nat (length rows) @ '' rows.''),
                    error = None\<rparr>\<rparr>],
                 isError = None\<rparr>,
            h1, tr1 @ [Execute c (Some ''bar'') (query params)]) \<and>
          kustoClient h1 = Some c \<and> currentClusterUrl h1 = Some ''https://foo.kusto.windows.net'' \<and>
          initialized h1 \<and>
          (kustoClient h \<noteq> None \<and> currentClusterUrl h = Some ''https://foo.kusto.windows.net''
             \<longrightarrow> h1 = h \<and> tr1 = tr) \<and>
          (kustoClient h = None \<or> currentClusterUrl h \<noteq> Some ''https://foo.kusto.windows.net''
             \<longrightarrow> c = \<lparr>client_id = length (filter is_NewClient tr),
                        client_url = ''https://foo.kusto.windows.net''\<rparr> \<and>
                 h1 = h\<lparr>kustoClient := Some c,
                         currentClusterUrl := Some ''https://foo.kusto.windows.net''\<rparr> \<and>
                 tr1 = tr @ [GetToken ''https://foo.kusto.windows.net/.default'',
                             NewClient ''https://foo.kusto.windows.net'']) \<and>
          ((\<forall>c0. kustoClient h = Some c0 \<longrightarrow> currentClusterUrl h = Some (client_url c0))
             \<longrightarrow> client_url c = ''https://foo.kusto.windows.net'')"
proof -
  let ?u = "''https://foo.kusto.windows.net''"
  let ?miss = "kustoClient h = None \<or> currentClusterUrl h \<noteq> Some ?u"
  let ?new = "\<lparr>client_id = length (filter is_NewClient tr), client_url = ?u\<rparr>"
  have fu: "formatClusterUrl ''foo'' = ?u" by (simp add: formatClusterUrl_def)
  have cl: "js_or (clusterUrl params) (env w ''KUSTO_DEFAULT_CLUSTER'') = Some ''foo''"
    using only_query envc by (simp add: js_or_def truthy_def)
  have db: "js_or (database params) (env w ''KUSTO_DEFAULT_DATABASE'') = Some ''bar''"
    using only_query envd by (simp add: js_or_def truthy_def)
  have tdb: "truthy (js_or (database params) (env w ''KUSTO_DEFAULT_DATABASE''))"
    by (simp add: db truthy_def)
  have "\<exists>c h1 tr1. getClient w ''foo'' h tr = (Inr c, h1, tr1) \<and> kustoClient h1 = Some c \<and>
          currentClusterUrl h1 = Some ?u \<and> initialized h1 \<and>
          (\<not> ?miss \<longrightarrow> h1 = h \<and> tr1 = tr) \<and>
          (?miss \<longrightarrow> c = ?new \<and> h1 = h\<lparr>kustoClient := Some c, currentClusterUrl := Some ?u\<rparr> \<and>
                    tr1 = tr @ [GetToken (?u @ ''/.default''), NewClient ?u])"
  proof (cases ?miss)
    case True
    then have m: "kustoClient h = None \<or> currentClusterUrl h \<noteq> Some (formatClusterUrl ''foo'')"
      by (simp add: fu)
    have "getToken w tr (?u @ ''/.default'') = None" using token by simp
    moreover have "newClient w (tr @ [GetToken (?u @ ''/.default'')]) ?u = None" using built by simp
    ultimately have "getClient w ''foo'' h tr =
        (Inr ?new, h\<lparr>kustoClient := Some ?new, currentClusterUrl := Some ?u\<rparr>,
         tr @ [GetToken (?u @ ''/.default''), NewClient ?u])"
      by (simp add: getClient_miss [OF m] fu connect_ok)
    with True init show ?thesis by simp
  next
    case False
    then obtain c where c: "kustoClient h = Some c" "currentClusterUrl h = Some (formatClusterUrl ''foo'')"
      by (auto simp: fu)
    have "getClient w ''foo'' h tr = (Inr c, h, tr)" using c by (rule getClient_hit)
    with False c init show ?thesis by (simp add: fu)
  qed
  then obtain c h1 tr1 where g: "getClient w ''foo'' h tr = (Inr c, h1, tr1)"
    and k: "kustoClient h1 = Some c" "currentClusterUrl h1 = Some ?u" "initialized h1"
    and hit: "\<not> ?miss \<longrightarrow> h1 = h \<and> tr1 = tr"
    and miss: "?miss \<longrightarrow> c = ?new \<and> h1 = h\<lparr>kustoClient := Some c, currentClusterUrl := Some ?u\<rparr> \<and>
                    tr1 = tr @ [GetToken (?u @ ''/.default''), NewClient ?u]"
    by blast
  have ex: "execute w tr1 c (js_or (database params) (env w ''KUSTO_DEFAULT_DATABASE'')) (query params) = Inr (raw # rest)"
    using runs by (simp add: db)
  have d: "data_of (JObj kvs) = Inr (Some (JArr rows))" using rows by simp
  have e: "rows_or_empty (Some (JArr rows)) = JArr rows" by (simp add: rows_or_empty_def)
  note q = run_query_rows [OF ex parses d e]
  have f: "''foo'' \<noteq> []" by simp
  note r = executeQuery_try_run [OF init cl f tdb g q]
  have res: "executeQuery w params h tr =
           (Inr \<lparr>content = [\<lparr>block_type = ''text'', block_text =
                   \<lparr>success = True,
                    input = \<lparr>input_clusterUrl = ?u, input_database = ''bar'', input_query = query params\<rparr>,
                    data = Some (JArr rows),
                    message = Some (''Query executed successfully. Retrieved '' @ show_nat (length rows) @ '' rows.''),
                    error = None\<rparr>\<rparr>],
                 isError = None\<rparr>,
            h1, tr1 @ [Execute c (Some ''bar'') (query params)])"
    by (simp add: executeQuery_passed [OF r] text_response_def cl db or_default_def fu)
  have hit': "kustoClient h \<noteq> None \<and> currentClusterUrl h = Some ?u \<longrightarrow> h1 = h \<and> tr1 = tr"
    using hit by simp
  have miss': "kustoClient h = None \<or> currentClusterUrl h \<noteq> Some ?u \<longrightarrow>
      c = ?new \<and> h1 = h\<lparr>kustoClient := Some c, currentClusterUrl := Some ?u\<rparr> \<and>
      tr1 = tr @ [GetToken ''https://foo.kusto.windows.net/.default'', NewClient ?u]"
    using miss by simp
  have url: "(\<forall>c0. kustoClient h = Some c0 \<longrightarrow> currentClusterUrl h = Some (client_url c0))
      \<longrightarrow> client_url c = ?u"
  proof (cases ?miss)
    case True
    with miss show ?thesis by simp
  next
    case False
    with hit k show ?thesis by auto
  qed
  from res k hit' miss' url show ?thesis by blast
qed

theorem executeQuery_environment_defaults_witness:
  \<open>executeQuery (sample_world (Some ''foo'') (Some ''bar'') None ''{"name":"PrimaryResult","data":[{"x":1}]}'')
        \<lparr>query = ''T | take 1'', database = None, clusterUrl = None\<rparr> (initialize new_handler) [] =
     (Inr \<lparr>content = [\<lparr>block_type = ''text'', block_text =
             \<lparr>success = True,
              input = \<lparr>input_clusterUrl = ''https://foo.kusto.windows.net'',
                       input_database = ''bar'', input_query = ''T | take 1''\<rparr>,
              data = Some (JArr [JObj [(''x'', JNum ''1'')]]),
              message = Some ''Query executed successfully. Retrieved 1 rows.'',
              error = None\<rparr>\<rparr>],
           isError = None\<rparr>,
      \<lparr>currentClusterUrl = Some ''https://foo.kusto.windows.net'',
       kustoClient = Some \<lparr>client_id = 0, client_url = ''https://foo.kusto.windows.net''\<rparr>,
       initialized = True\<rparr>,
      [GetToken ''https://foo.kusto.windows.net/.default'', NewClient ''https://foo.kusto.windows.net'',
       Execute \<lparr>client_id = 0, client_url = ''https://foo.kusto.windows.net''\<rparr> (Some ''bar'') ''T | take 1''])\<close>
proof -
  let ?w = \<open>sample_world (Some ''foo'') (Some ''bar'') None ''{"name":"PrimaryResult","data":[{"x":1}]}''\<close>
  let ?p = "\<lparr>query = ''T | take 1'', database = None, clusterUrl = None\<rparr>"
  have 1: "initialized (initialize new_handler)" by (simp add: initialize_def)
  have 2: "env ?w ''KUSTO_DEFAULT_CLUSTER'' = Some ''foo''" by (simp add: sample_world_def)
  have 3: "env ?w ''KUSTO_DEFAULT_DATABASE'' = Some ''bar''" by (simp add: sample_world_def)
  have 4: "clusterUrl ?p = None" by simp
  have 5: "database ?p = None" by simp
  have 6: "\<forall>t. getToken ?w t ''https://foo.kusto.windows.net/.default'' = None" by (simp add: sample_world_def)
  have 7: "\<forall>t. newClient ?w t ''https://foo.kusto.windows.net'' = None" by (simp add: sample_world_def)
  have 8: \<open>\<forall>t c. execute ?w t c (Some ''bar'') (query ?p) = Inr (''{"name":"PrimaryResult","data":[{"x":1}]}'' # [])\<close>
    by (simp add: sample_world_def)
  have 9: \<open>JSON_parse ?w ''{"name":"PrimaryResult","data":[{"x":1}]}'' =
     Inr (JObj [(''name'', JStr ''PrimaryResult''), (''data'', JArr [JObj [(''x'', JNum ''1'')]])])\<close>
    by (simp add: sample_world_def sample_parse_def)
  have 10: "map_of [(''name'', JStr ''PrimaryResult''), (''data'', JArr [JObj [(''x'', JNum ''1'')]])] ''data''
      = Some (JArr [JObj [(''x'', JNum ''1'')]])" by simp
  have n: "show_nat (length [JObj [(''x'', JNum ''1'')]]) = ''1''" by code_simp
  have fresh: "kustoClient (initialize new_handler) = None"
    by (simp add: initialize_def new_handler_def)
  have upd: "(initialize new_handler)\<lparr>kustoClient := Some \<lparr>client_id = 0, client_url = ''https://foo.kusto.windows.net''\<rparr>,
        currentClusterUrl := Some ''https://foo.kusto.windows.net''\<rparr> =
      \<lparr>currentClusterUrl = Some ''https://foo.kusto.windows.net'',
       kustoClient = Some \<lparr>client_id = 0, client_url = ''https://foo.kusto.windows.net''\<rparr>,
       initialized = True\<rparr>"
    by (simp add: initialize_def new_handler_def)
  show ?thesis
    using executeQuery_environment_defaults [OF 1 2 3 4 5 6 7 8 9 10, of "[]"] fresh upd
    unfolding n by auto
qed

subsection \<open>Row count\<close>

text \<open>
  C6: every response of \<open>executeQuery\<close> without \<open>isError\<close> carries an envelope with
  \<open>success\<close> true, a \<open>data\<close> field and a \<open>message\<close> field, and the message is built
  from the length of that data. When the data is a list of rows, the message is
  \<open>Query executed successfully. Retrieved n rows.\<close> with \<open>n\<close> the decimal rendering of
  the number of rows, and no other number fits the message.
\<close>

theorem executeQuery_success_row_count:
  assumes "executeQuery w params h tr = (Inr r, h', tr')" and "isError r = None"
  shows "\<exists>obj d m. content r = [\<lparr>block_type = ''text'', block_text = obj\<rparr>] \<and>
           success obj = True \<and> data obj = Some d \<and> message obj = Some m \<and> error obj = None \<and>
           (\<exists>n. length_text w d = Inr n \<and>
                m = ''Query executed successfully. Retrieved '' @ n @ '' rows.'') \<and>
           (\<forall>rows. d = JArr rows \<longrightarrow>
              m = ''Query executed successfully. Retrieved '' @ show_nat (length rows) @ '' rows.'' \<and>
              (\<forall>k. m = ''Query executed successfully. Retrieved '' @ show_nat k @ '' rows.''
                   \<longrightarrow> k = length rows))"
proof -
  from executeQuery_success_from_try [OF assms] executeQuery_try_Inr
  obtain c db tr1 where "run_query w params c db tr1 = (Inr r, tr')" by blast
  from run_query_Inr [OF this]
  obtain obj d where r: "r = text_response obj None"
    and p: "prepareResponseObj w params True (Some (rows_or_empty d)) None = Inr obj" by blast
  from prepareResponseObj_success_shape [OF p rows_or_empty_truthy]
  obtain n where s: "success obj = True" "data obj = Some (rows_or_empty d)" "error obj = None"
    and n: "length_text w (rows_or_empty d) = Inr n"
    and m: "message obj = Some (''Query executed successfully. Retrieved '' @ n @ '' rows.'')"
    by blast
  have "\<forall>rows. rows_or_empty d = JArr rows \<longrightarrow> n = show_nat (length rows)"
    using n by auto
  moreover have "\<forall>k. ''Query executed successfully. Retrieved '' @ show_nat j @ '' rows.'' =
           ''Query executed successfully. Retrieved '' @ show_nat k @ '' rows.'' \<longrightarrow> k = j" for j
    using show_nat_inj by (simp only: same_append_eq append_same_eq) blast
  ultimately show ?thesis
    using r s m n by (simp add: text_response_def)
qed

theorem executeQuery_success_row_count_witness:
  \<open>\<exists>r obj. executeQuery (sample_world (Some ''foo'') (Some ''bar'') None ''{"name":"PrimaryResult","data":[{"x":1}]}'')
      \<lparr>query = ''T | take 1'', database = None, clusterUrl = None\<rparr> (initialize new_handler) [] =
     (Inr r,
      \<lparr>currentClusterUrl = Some ''https://foo.kusto.windows.net'',
       kustoClient = Some \<lparr>client_id = 0, client_url = ''https://foo.kusto.windows.net''\<rparr>,
       initialized = True\<rparr>,
      [GetToken ''https://foo.kusto.windows.net/.default'', NewClient ''https://foo.kusto.windows.net'',
       Execute \<lparr>client_id = 0, client_url = ''https://foo.kusto.windows.net''\<rparr> (Some ''bar'') ''T | take 1''])
    \<and> isError r = None \<and> content r = [\<lparr>block_type = ''text'', block_text = obj\<rparr>]
    \<and> data obj = Some (JArr [JObj [(''x'', JNum ''1'')]])
    \<and> message obj = Some ''Query executed successfully. Retrieved 1 rows.''\<close>
proof -
  let ?w = \<open>sample_world (Some ''foo'') (Some ''bar'') None ''{"name":"PrimaryResult","data":[{"x":1}]}''\<close>
  let ?p = "\<lparr>query = ''T | take 1'', database = None, clusterUrl = None\<rparr>"
  let ?c = "\<lparr>client_id = 0, client_url = ''https://foo.kusto.windows.net''\<rparr>"
  let ?h1 = "\<lparr>currentClusterUrl = Some ''https://foo.kusto.windows.net'', kustoClient = Some ?c, initialized = True\<rparr>"
  let ?tr = "[GetToken ''https://foo.kusto.windows.net/.default'', NewClient ''https://foo.kusto.windows.net'',
       Execute ?c (Some ''bar'') ''T | take 1'']"
  have "\<exists>r obj. executeQuery ?w ?p (initialize new_handler) [] = (Inr r, ?h1, ?tr) \<and> isError r = None \<and>
          content r = [\<lparr>block_type = ''text'', block_text = obj\<rparr>] \<and>
          data obj = Some (JArr [JObj [(''x'', JNum ''1'')]])"
    by (simp add: executeQuery_def executeQuery_try_def run_query_def getClient_def connect_def Let_def
          prepareResponseObj_def rows_or_empty_def text_response_def initialize_def new_handler_def
          sample_world_def sample_parse_def js_or_def truthy_def or_default_def formatClusterUrl_def)
  then obtain r obj where e: "executeQuery ?w ?p (initialize new_handler) [] = (Inr r, ?h1, ?tr)"
    and i: "isError r = None" and c: "content r = [\<lparr>block_type = ''text'', block_text = obj\<rparr>]"
    and d: "data obj = Some (JArr [JObj [(''x'', JNum ''1'')]])"
    by blast
  from executeQuery_success_row_count [OF e i] c d
  have "message obj = Some (''Query executed successfully. Retrieved '' @ show_nat (length [JObj [(''x'', JNum ''1'')]]) @ '' rows.'')"
    by auto
  moreover have "show_nat (length [JObj [(''x'', JNum ''1'')]]) = ''1''"
    by code_simp
  ultimately have "message obj = Some ''Query executed successfully. Retrieved 1 rows.''"
    by simp
  with e i c d show ?thesis by blast
qed

subsection \<open>Payloads without a data field\<close>

text \<open>
  C10 (as amended): when the payload of the first primary result parses to a JSON value
  other than \<open>null\<close> that has no \<open>data\<close> property, \<open>executeQuery\<close> returns a
  response without \<open>isError\<close> whose envelope has \<open>success\<close> true, an empty data list
  and the message \<open>Query executed successfully. Retrieved 0 rows.\<close>
\<close>

theorem executeQuery_payload_without_data:
  assumes "initialized h"
    and "js_or (clusterUrl params) (env w ''KUSTO_DEFAULT_CLUSTER'') = Some cluster" and "cluster \<noteq> []"
    and "truthy (js_or (database params) (env w ''KUSTO_DEFAULT_DATABASE''))"
    and "getClient w cluster h tr = (Inr c, h1, tr1)"
    and "execute w tr1 c (js_or (database params) (env w ''KUSTO_DEFAULT_DATABASE'')) (query params) = Inr (raw # rest)"
    and "JSON_parse w raw = Inr v"
    and "v \<noteq> JNull" and "\<forall>kvs. v = JObj kvs \<longrightarrow> map_of kvs ''data'' = None"
  shows "\<exists>obj. executeQuery w params h tr =
           (Inr \<lparr>content = [\<lparr>block_type = ''text'', block_text = obj\<rparr>], isError = None\<rparr>, h1,
            tr1 @ [Execute c (js_or (database params) (env w ''KUSTO_DEFAULT_DATABASE'')) (query params)]) \<and>
         success obj = True \<and> data obj = Some (JArr []) \<and>
         message obj = Some ''Query executed successfully. Retrieved 0 rows.'' \<and> error obj = None"
proof -
  have d: "data_of v = Inr None" using assms(8,9) by (rule data_of_absent)
  have e: "rows_or_empty None = JArr []" by (simp add: rows_or_empty_def)
  note q = run_query_rows [OF assms(6,7) d e]
  note t = executeQuery_try_run [OF assms(1-5) q]
  show ?thesis
    by (simp add: executeQuery_passed [OF t] text_response_def show_nat_0)
qed

theorem executeQuery_payload_without_data_witness:
  "\<exists>obj. executeQuery (sample_world (Some ''foo'') (Some ''bar'') None ''{}'')
      \<lparr>query = ''T | take 1'', database = None, clusterUrl = None\<rparr> (initialize new_handler) [] =
     (Inr \<lparr>content = [\<lparr>block_type = ''text'', block_text = obj\<rparr>], isError = None\<rparr>,
      \<lparr>currentClusterUrl = Some ''https://foo.kusto.windows.net'',
       kustoClient = Some \<lparr>client_id = 0, client_url = ''https://foo.kusto.windows.net''\<rparr>,
       initialized = True\<rparr>,
      [GetToken ''https://foo.kusto.windows.net/.default'', NewClient ''https://foo.kusto.windows.net'',
       Execute \<lparr>client_id = 0, client_url = ''https://foo.kusto.windows.net''\<rparr> (Some ''bar'') ''T | take 1''])
    \<and> success obj = True \<and> data obj = Some (JArr []) \<and>
      message obj = Some ''Query executed successfully. Retrieved 0 rows.'' \<and> error obj = None"
proof -
  let ?w = "sample_world (Some ''foo'') (Some ''bar'') None ''{}''"
  let ?p = "\<lparr>query = ''T | take 1'', database = None, clusterUrl = None\<rparr>"
  let ?c = "\<lparr>client_id = 0, client_url = ''https://foo.kusto.windows.net''\<rparr>"
  let ?h1 = "\<lparr>currentClusterUrl = Some ''https://foo.kusto.windows.net'', kustoClient = Some ?c, initialized = True\<rparr>"
  let ?tr1 = "[GetToken ''https://foo.kusto.windows.net/.default'', NewClient ''https://foo.kusto.windows.net'']"
  have 1: "initialized (initialize new_handler)" by (simp add: initialize_def)
  have 2: "js_or (clusterUrl ?p) (env ?w ''KUSTO_DEFAULT_CLUSTER'') = Some ''foo''"
    by (simp add: js_or_def truthy_def sample_world_def)
  have 3: "''foo'' \<noteq> []" by simp
  have 4: "truthy (js_or (database ?p) (env ?w ''KUSTO_DEFAULT_DATABASE''))"
    by (simp add: js_or_def truthy_def sample_world_def)
  have 5: "getClient ?w ''foo'' (initialize new_handler) [] = (Inr ?c, ?h1, ?tr1)"
    by (simp add: getClient_def connect_def Let_def formatClusterUrl_def initialize_def new_handler_def sample_world_def)
  have 6: "execute ?w ?tr1 ?c (js_or (database ?p) (env ?w ''KUSTO_DEFAULT_DATABASE'')) (query ?p) = Inr [''{}'']"
    by (simp add: sample_world_def)
  have 7: "JSON_parse ?w ''{}'' = Inr (JObj [])" by (simp add: sample_world_def sample_parse_def)
  have 8: "JObj [] \<noteq> JNull" by simp
  have 9: "\<forall>kvs. JObj [] = JObj kvs \<longrightarrow> map_of kvs ''data'' = None" by simp
  have db: "js_or (database ?p) (env ?w ''KUSTO_DEFAULT_DATABASE'') = Some ''bar''"
    by (simp add: js_or_def truthy_def sample_world_def)
  show ?thesis
    using executeQuery_payload_without_data [OF 1 2 3 4 5 6 7 8 9]
    unfolding db by simp
qed

text \<open>
  C10 as stated fails for the payload \<open>null\<close>: it parses as JSON and has no data
  field, but reading \<open>rawData.data\<close> throws, and the response is a failure envelope.
\<close>

theorem executeQuery_null_payload_counterexample:
  "executeQuery (sample_world (Some ''foo'') (Some ''bar'') None ''null'')
      \<lparr>query = ''T | take 1'', database = None, clusterUrl = None\<rparr> (initialize new_handler) [] =
     (Inr \<lparr>content = [\<lparr>block_type = ''text'', block_text =
             \<lparr>success = False,
              input = \<lparr>input_clusterUrl = ''https://foo.kusto.windows.net'', input_database = ''bar'',
                       input_query = ''T | take 1''\<rparr>,
              data = None, message = None,
              error = Some ''Cannot read properties of null (reading 'data')''\<rparr>\<rparr>],
           isError = Some True\<rparr>,
      \<lparr>currentClusterUrl = Some ''https://foo.kusto.windows.net'',
       kustoClient = Some \<lparr>client_id = 0, client_url = ''https://foo.kusto.windows.net''\<rparr>,
       initialized = True\<rparr>,
      [GetToken ''https://foo.kusto.windows.net/.default'', NewClient ''https://foo.kusto.windows.net'',
       Execute \<lparr>client_id = 0, client_url = ''https://foo.kusto.windows.net''\<rparr> (Some ''bar'') ''T | take 1''])"
  by (simp add: executeQuery_def executeQuery_try_def run_query_def getClient_def connect_def Let_def
          prepareResponseObj_def rows_or_empty_def text_response_def initialize_def new_handler_def
          sample_world_def sample_parse_def js_or_def truthy_def or_default_def formatClusterUrl_def)

section \<open>Router\<close>

text \<open>
  C7: for every tool name other than \<open>execute_kusto_query\<close>, the only name the router
  knows, \<open>handleToolCall\<close> throws the protocol error \<open>InvalidParams\<close> with the text
  \<open>Unknown tool name: \<close> followed by the name. The request handler never returns a
  result for such a request, and it throws that same error whenever the logger call
  returns.
\<close>

theorem handleToolCall_unknown_tool:
  assumes "name \<noteq> ''execute_kusto_query''"
  shows "handleToolCall penv adx name args = Inl (McpError InvalidParams (''Unknown tool name: '' @ name)) \<and>
         (\<forall>r. fst (callTool penv srv adx logs startTime endTime name args log) \<noteq> Inr r) \<and>
         ((\<forall>ty props. logs ty props = None) \<longrightarrow>
            fst (callTool penv srv adx logs startTime endTime name args log) =
              Inl (McpError InvalidParams (''Unknown tool name: '' @ name)))"
  using assms by (auto simp: handleToolCall_def callTool_def Let_def split: option.splits)

theorem handleToolCall_unknown_tool_witness:
  "''list_tables'' \<noteq> ''execute_kusto_query'' \<and>
   handleToolCall (\<lambda>k. None) (\<lambda>p. Inr ()) ''list_tables'' (Some (\<lambda>k. None)) =
     Inl (McpError InvalidParams ''Unknown tool name: list_tables'') \<and>
   fst (callTool (\<lambda>k. None) \<lparr>serverName = ''adx_server'', version = ''0.1.5''\<rparr> (\<lambda>p. Inr ())
          (\<lambda>ty props. None) 1000 1005 ''list_tables'' (Some (\<lambda>k. None)) []) =
     Inl (McpError InvalidParams ''Unknown tool name: list_tables'')"
proof -
  have 1: "''list_tables'' \<noteq> ''execute_kusto_query''" by simp
  have 2: "\<forall>ty props. (\<lambda>ty props. None :: js_error option) ty props = None" by simp
  from handleToolCall_unknown_tool [OF 1, of "\<lambda>k. None" "\<lambda>p. Inr ()" "Some (\<lambda>k. None)"
      "\<lparr>serverName = ''adx_server'', version = ''0.1.5''\<rparr>" "\<lambda>ty props. None" 1000 1005 "[]"] 1
  show ?thesis by simp
qed

text \<open>
  C8: every run of the request handler makes exactly one call of \<open>logger.event\<close>, of
  type \<open>TOOL_INVOKED\<close>, with the tool name, the difference of the two clock readings,
  and the status \<open>failure\<close> when \<open>handleToolCall\<close> threw and \<open>success\<close> otherwise.
\<close>

theorem callTool_logs_once:
  "\<exists>props. snd (callTool penv srv adx logs startTime endTime name args log) = log @ [(TOOL_INVOKED, props)] \<and>
     ev_name props = name \<and> ev_duration props = endTime - startTime \<and>
     ev_status props = (if isl (handleToolCall penv adx name args) then ''failure'' else ''success'') \<and>
     ev_args props = args \<and> ev_serverName props = serverName srv \<and> ev_version props = version srv"
  by (simp add: callTool_def Let_def split: sum.splits)

theorem callTool_logs_once_witness:
  "snd (callTool (\<lambda>k. if k = ''KUSTO_DEFAULT_CLUSTER'' then Some ''foo''
                      else if k = ''KUSTO_DEFAULT_DATABASE'' then Some ''bar'' else None)
          \<lparr>serverName = ''adx_server'', version = ''0.1.5''\<rparr>
          (\<lambda>p. Inl (Thrown (JsError ''socket hang up'')) :: thrown + unit)
          (\<lambda>ty props. None) 1000 1005 ''execute_kusto_query'' (Some (\<lambda>k. None)) []) =
     [(TOOL_INVOKED, \<lparr>ev_name = ''execute_kusto_query'', ev_duration = 5, ev_status = ''failure'',
                       ev_args = Some (\<lambda>k. None), ev_serverName = ''adx_server'', ev_version = ''0.1.5''\<rparr>)]"
proof -
  let ?penv = "\<lambda>k. if k = ''KUSTO_DEFAULT_CLUSTER'' then Some ''foo''
                      else if k = ''KUSTO_DEFAULT_DATABASE'' then Some ''bar'' else None"
  let ?adx = "\<lambda>p :: call_params. Inl (Thrown (JsError ''socket hang up'')) :: thrown + unit"
  have h: "handleToolCall ?penv ?adx ''execute_kusto_query'' (Some (\<lambda>k. None)) = Inl (Thrown (JsError ''socket hang up''))"
    by (simp add: handleToolCall_def truthy_arg_def truthy_def)
  from callTool_logs_once [of ?penv "\<lparr>serverName = ''adx_server'', version = ''0.1.5''\<rparr>" ?adx
      "\<lambda>ty props. None" 1000 1005 "''execute_kusto_query''" "Some (\<lambda>k. None)" "[]"]
  obtain props where "snd (callTool ?penv \<lparr>serverName = ''adx_server'', version = ''0.1.5''\<rparr> ?adx
      (\<lambda>ty props. None) 1000 1005 ''execute_kusto_query'' (Some (\<lambda>k. None)) []) = [] @ [(TOOL_INVOKED, props)]"
    and "ev_name props = ''execute_kusto_query''" and "ev_duration props = 1005 - 1000"
    and "ev_status props = (if isl (handleToolCall ?penv ?adx ''execute_kusto_query'' (Some (\<lambda>k. None))) then ''failure'' else ''success'')"
    and "ev_args props = Some (\<lambda>k. None)" and "ev_serverName props = ''adx_server''"
    and "ev_version props = ''0.1.5''"
    by auto
  then show ?thesis
    unfolding h by (cases props) simp
qed

end
